theory Spec2Isabelle
  imports Complex_Main "HOL-Library.Finite_Map" "HOL-Library.List_Lexorder" "HOL-Library.Char_ord"
begin

section \<open>The recommendation engine of advisor.py\<close>

text \<open>
  The development embeds \<^verbatim>\<open>clamp\<close>, the local function \<^verbatim>\<open>adjust\<close> and
  \<^verbatim>\<open>recommend\<close> of \<^verbatim>\<open>src/advisor.py\<close>.

  Modelling conventions.
  \<^item> A Python \<^verbatim>\<open>float\<close> is a \<^typ>\<open>real\<close>: comparisons are those of the code, the
    arithmetic is exact (the constants \<^verbatim>\<open>0.30\<close> and \<^verbatim>\<open>1e-6\<close> are the rationals
    3/10 and 1/1000000); NaN, infinities and the negative zero have no counterpart.
  \<^item> A Python \<^verbatim>\<open>int\<close> is an \<^typ>\<open>int\<close>.
  \<^item> A Python \<^verbatim>\<open>str\<close> is a \<^typ>\<open>string\<close>, read as its UTF-8 bytes;
    \<^verbatim>\<open>strip\<close> and \<^verbatim>\<open>lower\<close> are modelled on the ASCII range.
  \<^item> The rule table is the parsed JSON document with the shape the code reads:
    \<^verbatim>\<open>ideal_ph\<close> a pair, \<^verbatim>\<open>base_npk\<close> a triple, all threshold keys present;
    \<^verbatim>\<open>notes\<close> may be missing, as the code reads it with \<^verbatim>\<open>c.get("notes", [])\<close>.
    The dict of crops is a finite map.
  \<^item> An exception is a value of type \<open>error\<close>, returned on the left of a sum.
\<close>

subsection \<open>Errors\<close>

datatype error = ValueError string | ZeroDivisionError

subsection \<open>Strings\<close>

text \<open>The ASCII characters for which \<^verbatim>\<open>str.isspace\<close> holds.\<close>

definition is_space :: "char \<Rightarrow> bool" where
  "is_space c = (c \<in> set [CHR 0x09, CHR 0x0A, CHR 0x0B, CHR 0x0C, CHR 0x0D,
                             CHR 0x1C, CHR 0x1D, CHR 0x1E, CHR 0x1F, CHR 0x20])"

definition strip :: "string \<Rightarrow> string" where
  "strip s = rev (dropWhile is_space (rev (dropWhile is_space s)))"

definition lower_char :: "char \<Rightarrow> char" where
  "lower_char c = (if CHR ''A'' \<le> c \<and> c \<le> CHR ''Z'' then char_of (of_char c + (32::nat)) else c)"

definition lower :: "string \<Rightarrow> string" where
  "lower s = map lower_char s"

text \<open>\<^verbatim>\<open>sep.join(xs)\<close>.\<close>

fun join :: "string \<Rightarrow> string list \<Rightarrow> string" where
  "join sep [] = []"
| "join sep [x] = x"
| "join sep (x # y # ys) = x @ sep @ join sep (y # ys)"

text \<open>The decimal digits of a natural number, as \<^verbatim>\<open>str\<close> prints them.\<close>

definition digit_char :: "nat \<Rightarrow> char" where
  "digit_char d = ''0123456789'' ! d"

fun str_nat :: "nat \<Rightarrow> string" where
  "str_nat n = (if n < 10 then [digit_char n] else str_nat (n div 10) @ [digit_char (n mod 10)])"

declare str_nat.simps [simp del]

subsection \<open>Rounding and formatting\<close>

text \<open>
  \<^verbatim>\<open>round(x)\<close> of Python 3: the nearest integer, a tie going to the even neighbour.
\<close>

definition py_round :: "real \<Rightarrow> int" where
  "py_round x =
     (let f = \<lfloor>x\<rfloor>; d = x - of_int f in
      if d < 1/2 then f
      else if 1/2 < d then f + 1
      else if even f then f else f + 1)"

text \<open>\<^verbatim>\<open>round(x, 2)\<close>.\<close>

definition round2 :: "real \<Rightarrow> real" where
  "round2 x = of_int (py_round (x * 100)) / 100"

text \<open>
  The format specification \<^verbatim>\<open>:.1f\<close>: the sign, then the magnitude rounded to tenths
  (ties to even), printed with its integer part, a point and one digit.
\<close>

definition fmt1 :: "real \<Rightarrow> string" where
  "fmt1 x =
     (let r = nat (py_round (\<bar>x\<bar> * 10)) in
      (if x < 0 then ''-'' else []) @ str_nat (r div 10) @ ''.'' @ [digit_char (r mod 10)])"

subsection \<open>Data model\<close>

record crop_rule =
  ideal_ph :: "real \<times> real"
  base_npk :: "real \<times> real \<times> real"
  notes_opt :: "string list option"

record thresholds =
  low_rainfall_mm :: int
  high_rainfall_mm :: int
  low_n :: real
  low_p :: real
  low_k :: real

record rules =
  crops :: "(string, crop_rule) fmap"
  thresholds :: thresholds

record inputs =
  in_soil_ph :: real
  in_soil_n :: real
  in_soil_p :: real
  in_soil_k :: real
  in_rainfall_mm :: int

record recommendation =
  npk_estimate :: "int list"
  explain :: string

record result =
  res_crop :: string
  res_inputs :: inputs
  res_recommendation :: recommendation
  res_messages :: "string list"
  res_tips :: "string list"

subsection \<open>clamp and adjust\<close>

definition clamp :: "real \<Rightarrow> real \<Rightarrow> real \<Rightarrow> real" where
  "clamp x lo hi = max lo (min hi x)"

text \<open>Python's \<^verbatim>\<open>/\<close> on floats raises when the divisor is zero.\<close>

definition py_div :: "real \<Rightarrow> real \<Rightarrow> error + real" where
  "py_div a b = (if b = 0 then Inl ZeroDivisionError else Inr (a / b))"

definition adjust :: "real \<Rightarrow> real \<Rightarrow> real \<Rightarrow> error + int" where
  "adjust base soil_value low_thr =
     (if soil_value < low_thr then
        (case py_div (low_thr - soil_value) (max low_thr (1 / 1000000)) of
           Inl e \<Rightarrow> Inl e
         | Inr q \<Rightarrow>
             (let severity = clamp q 0 1
              in Inr (py_round (base * (1 + 3 / 10 * severity)))))
      else Inr (py_round base))"

subsection \<open>The texts of recommend\<close>

definition arrow :: string where
  "arrow = [CHR 0xE2, CHR 0x86, CHR 0x92]"

definition unknown_crop_msg :: "string \<Rightarrow> string list \<Rightarrow> string" where
  "unknown_crop_msg crop ks =
     ''Unknown crop '' @ [CHR 0x27] @ crop @ [CHR 0x27] @ ''. Try one of: '' @ join '', '' ks"

definition ph_low_msg :: "real \<Rightarrow> string \<Rightarrow> string" where
  "ph_low_msg soil_ph crop_key =
     ''Soil pH ('' @ fmt1 soil_ph @ '') is LOW for '' @ crop_key
       @ ''. Consider liming (after soil test).''"

definition ph_high_msg :: "real \<Rightarrow> string \<Rightarrow> string" where
  "ph_high_msg soil_ph crop_key =
     ''Soil pH ('' @ fmt1 soil_ph @ '') is HIGH for '' @ crop_key
       @ ''. Consider organic matter / sulfur guidance (after soil test).''"

definition ph_ok_msg :: "real \<Rightarrow> string \<Rightarrow> string" where
  "ph_ok_msg soil_ph crop_key =
     ''Soil pH ('' @ fmt1 soil_ph @ '') is within ideal range for '' @ crop_key @ ''.''"

definition rain_low_tip :: string where
  "rain_low_tip = ''Rainfall is low: plan irrigation, mulching, or drought-tolerant practices.''"

definition rain_high_tip :: string where
  "rain_high_tip = ''High rainfall: ensure drainage and monitor fungal disease risk.''"

definition rain_moderate_tip :: string where
  "rain_moderate_tip = ''Rainfall seems moderate: keep basic moisture monitoring.''"

definition n_warning :: string where
  "n_warning = ''Nitrogen looks low '' @ arrow @ '' expect weaker growth if not corrected.''"

definition p_warning :: string where
  "p_warning = ''Phosphorus looks low '' @ arrow @ '' root development may be limited.''"

definition k_warning :: string where
  "k_warning = ''Potassium looks low '' @ arrow @ '' stress tolerance and quality may drop.''"

text \<open>The pH messages are those that begin like the three pH texts above.\<close>

definition is_ph_msg :: "string \<Rightarrow> bool" where
  "is_ph_msg m = (take 9 m = ''Soil pH ('')"

definition explain_text :: string where
  "explain_text =
     ''Rule-based estimate using base crop needs + simple thresholds. Verify with local soil test.''"

subsection \<open>recommend\<close>

definition recommend ::
  "string \<Rightarrow> real \<Rightarrow> real \<Rightarrow> real \<Rightarrow> real \<Rightarrow> int \<Rightarrow> rules \<Rightarrow> error + result" where
  "recommend crop soil_ph n p k rainfall_mm rules =
     (let crop_key = lower (strip crop) in
      case fmlookup (crops rules) crop_key of
        None \<Rightarrow>
          Inl (ValueError (unknown_crop_msg crop (sorted_list_of_fset (fmdom (crops rules)))))
      | Some c \<Rightarrow>
          (let (ideal_low, ideal_high) = ideal_ph c;
               (baseN, baseP, baseK) = base_npk c;
               t = thresholds rules;
               messages = [];
               tips = (case notes_opt c of None \<Rightarrow> [] | Some ns \<Rightarrow> ns);
               messages = messages @
                 [if soil_ph < ideal_low then ph_low_msg soil_ph crop_key
                  else if ideal_high < soil_ph then ph_high_msg soil_ph crop_key
                  else ph_ok_msg soil_ph crop_key];
               tips = tips @
                 [if rainfall_mm < low_rainfall_mm t then rain_low_tip
                  else if high_rainfall_mm t < rainfall_mm then rain_high_tip
                  else rain_moderate_tip]
           in
           case adjust baseN n (low_n t) of Inl e \<Rightarrow> Inl e | Inr recN \<Rightarrow>
          (case adjust baseP p (low_p t) of Inl e \<Rightarrow> Inl e | Inr recP \<Rightarrow>
          (case adjust baseK k (low_k t) of Inl e \<Rightarrow> Inl e | Inr recK \<Rightarrow>
           (let messages = (if n < low_n t then messages @ [n_warning] else messages);
                messages = (if p < low_p t then messages @ [p_warning] else messages);
                messages = (if k < low_k t then messages @ [k_warning] else messages)
            in Inr \<lparr>res_crop = crop_key,
                    res_inputs = \<lparr>in_soil_ph = round2 soil_ph, in_soil_n = round2 n,
                                   in_soil_p = round2 p, in_soil_k = round2 k,
                                   in_rainfall_mm = rainfall_mm\<rparr>,
                    res_recommendation = \<lparr>npk_estimate = [recN, recP, recK],
                                           explain = explain_text\<rparr>,
                    res_messages = messages,
                    res_tips = tips\<rparr>)))))"

subsection \<open>The boosted value in the words of the specification\<close>

text \<open>
  \<^verbatim>\<open>round(base * (1.0 + 0.30 * clamp((lowThreshold - soilValue) / max(lowThreshold, 1e-6), 0.0, 1.0)))\<close>,
  with a total division: that the divisor is not zero is part of what is proved.
\<close>

definition spec_boost :: "real \<Rightarrow> real \<Rightarrow> real \<Rightarrow> int" where
  "spec_boost base soilValue lowThreshold =
     py_round (base * (1 + 3 / 10 *
       clamp ((lowThreshold - soilValue) / max lowThreshold (1 / 1000000)) 0 1))"

subsection \<open>A rule table for concrete runs\<close>

text \<open>
  The maize entry and the thresholds are those of the example of the specification
  (ideal pH 5.5 to 7.0, base NPK 120/60/40, low N 30, rainfall 400 to 1200); coffee has
  no \<^verbatim>\<open>notes\<close> key.
\<close>

definition maize_rule :: crop_rule where
  "maize_rule = \<lparr>ideal_ph = (11 / 2, 7), base_npk = (120, 60, 40),
                  notes_opt = Some [''Plant at the onset of rains.'', ''Rotate with legumes.'']\<rparr>"

definition demo_rules :: rules where
  "demo_rules =
     \<lparr>crops = fmap_of_list
        [(''maize'', maize_rule),
         (''coffee'', \<lparr>ideal_ph = (5, 6), base_npk = (100, 40, 80), notes_opt = None\<rparr>),
         (''sesame'', \<lparr>ideal_ph = (11 / 2, 8), base_npk = (50, 30, 30), notes_opt = Some []\<rparr>)],
      thresholds = \<lparr>low_rainfall_mm = 400, high_rainfall_mm = 1200,
                     low_n = 30, low_p = 15, low_k = 40\<rparr>\<rparr>"

subsection \<open>recommend over a store of list objects\<close>

text \<open>
  Python lists are mutable objects, and \<^verbatim>\<open>recommend\<close> appends to two of them. To see
  what a call does to the rule table, this second embedding of \<^verbatim>\<open>recommend\<close> keeps the
  lists of strings in a store: an address is an index of the store, the \<^verbatim>\<open>notes\<close> of a
  crop rule is the address of its list, \<^verbatim>\<open>[]\<close> and \<^verbatim>\<open>list(xs)\<close> allocate a new
  object, \<^verbatim>\<open>append\<close> updates an object in place. The returned dict refers to its
  \<^verbatim>\<open>messages\<close> and \<^verbatim>\<open>tips\<close> by address.
\<close>

type_synonym addr = nat

type_synonym store = "string list list"

definition new_list :: "string list \<Rightarrow> store \<Rightarrow> addr \<times> store" where
  "new_list xs h = (length h, h @ [xs])"

definition list_append :: "addr \<Rightarrow> string \<Rightarrow> store \<Rightarrow> store" where
  "list_append a x h = h[a := h ! a @ [x]]"

record crop_rule_obj =
  obj_ideal_ph :: "real \<times> real"
  obj_base_npk :: "real \<times> real \<times> real"
  notes_ref :: "addr option"

record rules_obj =
  crops_obj :: "(string, crop_rule_obj) fmap"
  thresholds_obj :: thresholds

record result_obj =
  obj_crop :: string
  obj_inputs :: inputs
  obj_recommendation :: recommendation
  messages_ref :: addr
  tips_ref :: addr

definition recommend_st ::
  "string \<Rightarrow> real \<Rightarrow> real \<Rightarrow> real \<Rightarrow> real \<Rightarrow> int \<Rightarrow> rules_obj \<Rightarrow> store
     \<Rightarrow> (error + result_obj) \<times> store" where
  "recommend_st crop soil_ph n p k rainfall_mm rules h0 =
     (let crop_key = lower (strip crop) in
      case fmlookup (crops_obj rules) crop_key of
        None \<Rightarrow>
          (Inl (ValueError (unknown_crop_msg crop (sorted_list_of_fset (fmdom (crops_obj rules))))),
           h0)
      | Some c \<Rightarrow>
          (let (ideal_low, ideal_high) = obj_ideal_ph c;
               (baseN, baseP, baseK) = obj_base_npk c;
               t = thresholds_obj rules;
               (messages, h1) = new_list [] h0;
               (dflt, h2) = new_list [] h1;
               src = (case notes_ref c of None \<Rightarrow> dflt | Some a \<Rightarrow> a);
               (tips, h3) = new_list (h2 ! src) h2;
               h4 = list_append messages
                 (if soil_ph < ideal_low then ph_low_msg soil_ph crop_key
                  else if ideal_high < soil_ph then ph_high_msg soil_ph crop_key
                  else ph_ok_msg soil_ph crop_key) h3;
               h5 = list_append tips
                 (if rainfall_mm < low_rainfall_mm t then rain_low_tip
                  else if high_rainfall_mm t < rainfall_mm then rain_high_tip
                  else rain_moderate_tip) h4
           in
           case adjust baseN n (low_n t) of Inl e \<Rightarrow> (Inl e, h5) | Inr recN \<Rightarrow>
          (case adjust baseP p (low_p t) of Inl e \<Rightarrow> (Inl e, h5) | Inr recP \<Rightarrow>
          (case adjust baseK k (low_k t) of Inl e \<Rightarrow> (Inl e, h5) | Inr recK \<Rightarrow>
           (let h6 = (if n < low_n t then list_append messages n_warning h5 else h5);
                h7 = (if p < low_p t then list_append messages p_warning h6 else h6);
                h8 = (if k < low_k t then list_append messages k_warning h7 else h7)
            in (Inr \<lparr>obj_crop = crop_key,
                     obj_inputs = \<lparr>in_soil_ph = round2 soil_ph, in_soil_n = round2 n,
                                    in_soil_p = round2 p, in_soil_k = round2 k,
                                    in_rainfall_mm = rainfall_mm\<rparr>,
                     obj_recommendation = \<lparr>npk_estimate = [recN, recP, recK],
                                            explain = explain_text\<rparr>,
                     messages_ref = messages,
                     tips_ref = tips\<rparr>, h8))))))"

text \<open>The value of the rule table and of a returned dict in a store.\<close>

definition load_crop :: "store \<Rightarrow> crop_rule_obj \<Rightarrow> crop_rule" where
  "load_crop h c = \<lparr>ideal_ph = obj_ideal_ph c, base_npk = obj_base_npk c,
                    notes_opt = map_option (\<lambda>a. h ! a) (notes_ref c)\<rparr>"

definition load_rules :: "store \<Rightarrow> rules_obj \<Rightarrow> rules" where
  "load_rules h rules = \<lparr>crops = fmmap (load_crop h) (crops_obj rules),
                         thresholds = thresholds_obj rules\<rparr>"

definition load_result :: "store \<Rightarrow> result_obj \<Rightarrow> result" where
  "load_result h r = \<lparr>res_crop = obj_crop r, res_inputs = obj_inputs r,
                      res_recommendation = obj_recommendation r,
                      res_messages = h ! messages_ref r, res_tips = h ! tips_ref r\<rparr>"

definition returned :: "(error + result_obj) \<times> store \<Rightarrow> error + result" where
  "returned out = (case out of (Inl e, h) \<Rightarrow> Inl e | (Inr r, h) \<Rightarrow> Inr (load_result h r))"

text \<open>Every \<^verbatim>\<open>notes\<close> of the table is the address of an object of the store.\<close>

definition notes_allocated :: "store \<Rightarrow> rules_obj \<Rightarrow> bool" where
  "notes_allocated h rules =
     fmpred (\<lambda>_ c. case notes_ref c of None \<Rightarrow> True | Some a \<Rightarrow> a < length h) (crops_obj rules)"

definition demo_store :: store where
  "demo_store = [[''Plant at the onset of rains.'', ''Rotate with legumes.''], []]"

definition demo_rules_obj :: rules_obj where
  "demo_rules_obj =
     \<lparr>crops_obj = fmap_of_list
        [(''maize'', \<lparr>obj_ideal_ph = (11 / 2, 7), obj_base_npk = (120, 60, 40),
                      notes_ref = Some 0\<rparr>),
         (''coffee'', \<lparr>obj_ideal_ph = (5, 6), obj_base_npk = (100, 40, 80), notes_ref = None\<rparr>),
         (''sesame'', \<lparr>obj_ideal_ph = (11 / 2, 8), obj_base_npk = (50, 30, 30),
                       notes_ref = Some 1\<rparr>)],
      thresholds_obj = \<lparr>low_rainfall_mm = 400, high_rainfall_mm = 1200,
                         low_n = 30, low_p = 15, low_k = 40\<rparr>\<rparr>"

section \<open>Basic facts\<close>

subsection \<open>Rounding\<close>





subsection \<open>adjust never raises; the boost is monotone\<close>

lemma max_thr_pos: "0 < max (t::real) (1 / 1000000)"
  by (simp add: max_def)



lemma adjust_value:
  "adjust base s t = Inr (if s < t then spec_boost base s t else py_round base)"
proof -
  have "max t (1 / 1000000) \<noteq> 0" using max_thr_pos [of t] by linarith
  then show ?thesis by (simp add: adjust_def py_div_def Let_def spec_boost_def)
qed




subsection \<open>Digits and texts\<close>





lemma ph_msgs_are_ph:
  "is_ph_msg (ph_low_msg x k)" "is_ph_msg (ph_high_msg x k)" "is_ph_msg (ph_ok_msg x k)"
  by (simp_all add: is_ph_msg_def ph_low_msg_def ph_high_msg_def ph_ok_msg_def)


lemma warnings_distinct:
  "n_warning \<noteq> p_warning" "n_warning \<noteq> k_warning" "p_warning \<noteq> k_warning"
  by (simp_all add: n_warning_def p_warning_def k_warning_def)

lemma tips_distinct:
  "rain_low_tip \<noteq> rain_high_tip" "rain_low_tip \<noteq> rain_moderate_tip"
  "rain_high_tip \<noteq> rain_moderate_tip"
  by (simp_all add: rain_low_tip_def rain_high_tip_def rain_moderate_tip_def)

subsection \<open>The two outcomes of recommend\<close>

lemma recommend_missing:
  assumes "fmlookup (crops rules) (lower (strip crop)) = None"
  shows "recommend crop soil_ph n p k rainfall_mm rules =
     Inl (ValueError (unknown_crop_msg crop (sorted_list_of_fset (fmdom (crops rules)))))"
  using assms by (simp add: recommend_def Let_def)

lemma recommend_found:
  assumes "fmlookup (crops rules) (lower (strip crop)) = Some c"
  shows "recommend crop soil_ph n p k rainfall_mm rules =
    Inr \<lparr>res_crop = lower (strip crop),
         res_inputs = \<lparr>in_soil_ph = round2 soil_ph, in_soil_n = round2 n,
                        in_soil_p = round2 p, in_soil_k = round2 k,
                        in_rainfall_mm = rainfall_mm\<rparr>,
         res_recommendation =
           \<lparr>npk_estimate =
              [if n < low_n (thresholds rules)
               then spec_boost (fst (base_npk c)) n (low_n (thresholds rules))
               else py_round (fst (base_npk c)),
               if p < low_p (thresholds rules)
               then spec_boost (fst (snd (base_npk c))) p (low_p (thresholds rules))
               else py_round (fst (snd (base_npk c))),
               if k < low_k (thresholds rules)
               then spec_boost (snd (snd (base_npk c))) k (low_k (thresholds rules))
               else py_round (snd (snd (base_npk c)))],
            explain = explain_text\<rparr>,
         res_messages =
           (if soil_ph < fst (ideal_ph c) then ph_low_msg soil_ph (lower (strip crop))
            else if snd (ideal_ph c) < soil_ph then ph_high_msg soil_ph (lower (strip crop))
            else ph_ok_msg soil_ph (lower (strip crop)))
           # (if n < low_n (thresholds rules) then [n_warning] else [])
           @ (if p < low_p (thresholds rules) then [p_warning] else [])
           @ (if k < low_k (thresholds rules) then [k_warning] else []),
         res_tips =
           (case notes_opt c of None \<Rightarrow> [] | Some ns \<Rightarrow> ns)
           @ [if rainfall_mm < low_rainfall_mm (thresholds rules) then rain_low_tip
              else if high_rainfall_mm (thresholds rules) < rainfall_mm then rain_high_tip
              else rain_moderate_tip]\<rparr>"
  using assms
  by (simp add: recommend_def Let_def adjust_value split: prod.splits)

lemma recommend_InrD:
  assumes "recommend crop soil_ph n p k rainfall_mm rules = Inr res"
  shows "\<exists>c. fmlookup (crops rules) (lower (strip crop)) = Some c"
proof (cases "fmlookup (crops rules) (lower (strip crop))")
  case None
  then show ?thesis using assms by (simp add: recommend_missing)
next
  case (Some c)
  then show ?thesis by blast
qed


subsection \<open>A run on the example table\<close>

lemma demo_maize: "fmlookup (crops demo_rules) (lower (strip ''maize'')) = Some maize_rule"
  by code_simp

lemma demo_maize_run:
  "recommend ''maize'' 5 20 50 45 500 demo_rules =
     Inr \<lparr>res_crop = ''maize'',
          res_inputs = \<lparr>in_soil_ph = 5, in_soil_n = 20, in_soil_p = 50, in_soil_k = 45,
                         in_rainfall_mm = 500\<rparr>,
          res_recommendation = \<lparr>npk_estimate = [132, 60, 40], explain = explain_text\<rparr>,
          res_messages = [ph_low_msg 5 ''maize'', n_warning],
          res_tips = [''Plant at the onset of rains.'', ''Rotate with legumes.'',
                      rain_moderate_tip]\<rparr>"
proof -
  have l: "lower (strip ''maize'') = ''maize''" by code_simp
  have t: "thresholds demo_rules = \<lparr>low_rainfall_mm = 400, high_rainfall_mm = 1200,
                     low_n = 30, low_p = 15, low_k = 40\<rparr>" by (simp add: demo_rules_def)
  show ?thesis
    unfolding recommend_found [OF demo_maize] l t
    by (simp add: maize_rule_def spec_boost_def clamp_def py_round_def round2_def)
qed

subsection \<open>The store: what a call allocates and what it keeps\<close>

lemma list_append_at:
  "list_append (length h) x (h @ xs # rest) = h @ (xs @ [x]) # rest"
  by (simp add: list_append_def)

lemma list_append_at2:
  "list_append (Suc (Suc (length h))) x (h @ a # b # xs # rest) = h @ a # b # (xs @ [x]) # rest"
  by (simp add: list_append_def list_update_append nth_append)

lemma recommend_st_missing:
  assumes "fmlookup (crops_obj rules) (lower (strip crop)) = None"
  shows "recommend_st crop soil_ph n p k rainfall_mm rules h =
     (Inl (ValueError (unknown_crop_msg crop (sorted_list_of_fset (fmdom (crops_obj rules))))), h)"
  using assms by (simp add: recommend_st_def Let_def)

lemma recommend_st_found:
  assumes "fmlookup (crops_obj rules) (lower (strip crop)) = Some c"
    and "case notes_ref c of None \<Rightarrow> True | Some a \<Rightarrow> a < length h"
  shows "recommend_st crop soil_ph n p k rainfall_mm rules h =
    (Inr \<lparr>obj_crop = lower (strip crop),
          obj_inputs = \<lparr>in_soil_ph = round2 soil_ph, in_soil_n = round2 n,
                         in_soil_p = round2 p, in_soil_k = round2 k,
                         in_rainfall_mm = rainfall_mm\<rparr>,
          obj_recommendation =
           \<lparr>npk_estimate =
              [if n < low_n (thresholds_obj rules)
               then spec_boost (fst (obj_base_npk c)) n (low_n (thresholds_obj rules))
               else py_round (fst (obj_base_npk c)),
               if p < low_p (thresholds_obj rules)
               then spec_boost (fst (snd (obj_base_npk c))) p (low_p (thresholds_obj rules))
               else py_round (fst (snd (obj_base_npk c))),
               if k < low_k (thresholds_obj rules)
               then spec_boost (snd (snd (obj_base_npk c))) k (low_k (thresholds_obj rules))
               else py_round (snd (snd (obj_base_npk c)))],
            explain = explain_text\<rparr>,
          messages_ref = length h,
          tips_ref = Suc (Suc (length h))\<rparr>,
     h @ [(if soil_ph < fst (obj_ideal_ph c) then ph_low_msg soil_ph (lower (strip crop))
           else if snd (obj_ideal_ph c) < soil_ph then ph_high_msg soil_ph (lower (strip crop))
           else ph_ok_msg soil_ph (lower (strip crop)))
          # (if n < low_n (thresholds_obj rules) then [n_warning] else [])
          @ (if p < low_p (thresholds_obj rules) then [p_warning] else [])
          @ (if k < low_k (thresholds_obj rules) then [k_warning] else []),
          [],
          (case notes_ref c of None \<Rightarrow> [] | Some a \<Rightarrow> h ! a)
          @ [if rainfall_mm < low_rainfall_mm (thresholds_obj rules) then rain_low_tip
             else if high_rainfall_mm (thresholds_obj rules) < rainfall_mm then rain_high_tip
             else rain_moderate_tip]])"
proof (cases "notes_ref c")
  case None
  then show ?thesis
    using assms(1)
    by (simp add: recommend_st_def Let_def new_list_def adjust_value nth_append
        list_append_at list_append_at2 split: prod.splits)
next
  case (Some a)
  then have "a < length h" using assms(2) by simp
  with Some show ?thesis
    using assms(1)
    by (simp add: recommend_st_def Let_def new_list_def adjust_value nth_append
        list_append_at list_append_at2 split: prod.splits)
qed

lemma notes_allocatedD:
  assumes "notes_allocated h rules" and "fmlookup (crops_obj rules) key = Some c"
  shows "case notes_ref c of None \<Rightarrow> True | Some a \<Rightarrow> a < length h"
  using assms unfolding notes_allocated_def by (auto dest: fmpredD)

lemma recommend_st_refines:
  assumes "notes_allocated h rules"
  shows "returned (recommend_st crop soil_ph n p k rainfall_mm rules h) =
           recommend crop soil_ph n p k rainfall_mm (load_rules h rules)"
proof (cases "fmlookup (crops_obj rules) (lower (strip crop))")
  case None
  then have "fmlookup (crops (load_rules h rules)) (lower (strip crop)) = None"
    by (simp add: load_rules_def)
  then show ?thesis
    using None
    by (simp add: recommend_st_missing recommend_missing returned_def load_rules_def)
next
  case (Some c)
  have a: "case notes_ref c of None \<Rightarrow> True | Some a \<Rightarrow> a < length h"
    using assms Some by (rule notes_allocatedD)
  have f: "fmlookup (crops (load_rules h rules)) (lower (strip crop)) = Some (load_crop h c)"
    using Some by (simp add: load_rules_def)
  have t: "thresholds (load_rules h rules) = thresholds_obj rules"
    by (simp add: load_rules_def)
  show ?thesis
    unfolding recommend_st_found [OF Some a] recommend_found [OF f] t
    by (simp add: returned_def load_result_def load_crop_def nth_append split: option.splits)
qed

lemma recommend_st_extends:
  assumes "notes_allocated h rules"
    and "recommend_st crop soil_ph n p k rainfall_mm rules h = (out, h1)"
  shows "\<exists>fresh. h1 = h @ fresh"
proof (cases "fmlookup (crops_obj rules) (lower (strip crop))")
  case None
  then show ?thesis using assms(2) by (simp add: recommend_st_missing)
next
  case (Some c)
  have a: "case notes_ref c of None \<Rightarrow> True | Some a \<Rightarrow> a < length h"
    using assms(1) Some by (rule notes_allocatedD)
  show ?thesis
    using assms(2) unfolding recommend_st_found [OF Some a] by blast
qed

lemma table_kept:
  assumes "notes_allocated h rules"
  shows "notes_allocated (h @ fresh) rules \<and> load_rules (h @ fresh) rules = load_rules h rules"
proof
  show "notes_allocated (h @ fresh) rules"
    unfolding notes_allocated_def
  proof (rule fmpredI)
    fix key c
    assume "fmlookup (crops_obj rules) key = Some c"
    with assms have "case notes_ref c of None \<Rightarrow> True | Some a \<Rightarrow> a < length h"
      by (rule notes_allocatedD)
    then show "case notes_ref c of None \<Rightarrow> True | Some a \<Rightarrow> a < length (h @ fresh)"
      by (simp split: option.splits)
  qed
next
  have "fmmap (load_crop (h @ fresh)) (crops_obj rules) = fmmap (load_crop h) (crops_obj rules)"
  proof (rule fmap_ext)
    fix key
    show "fmlookup (fmmap (load_crop (h @ fresh)) (crops_obj rules)) key
        = fmlookup (fmmap (load_crop h) (crops_obj rules)) key"
    proof (cases "fmlookup (crops_obj rules) key")
      case None
      then show ?thesis by simp
    next
      case (Some c)
      have "case notes_ref c of None \<Rightarrow> True | Some a \<Rightarrow> a < length h"
        using assms Some by (rule notes_allocatedD)
      then have "load_crop (h @ fresh) c = load_crop h c"
        by (simp add: load_crop_def nth_append split: option.splits)
      with Some show ?thesis by simp
    qed
  qed
  then show "load_rules (h @ fresh) rules = load_rules h rules"
    by (simp add: load_rules_def)
qed

section \<open>The claims\<close>

subsection \<open>Unknown crop\<close>



subsection \<open>The NPK estimate and the base values\<close>




subsection \<open>The adjustment\<close>






text \<open>
  C5. When the soil value equals the low threshold no boost is applied: the test is a
  strict \<open><\<close>, and \<^verbatim>\<open>adjust\<close> returns \<open>round(base)\<close>.
\<close>

theorem adjust_at_threshold:
  "adjust base low_thr low_thr = Inr (py_round base)"
  by (simp add: adjust_value)

theorem adjust_at_threshold_witness:
  "adjust 120 30 30 = Inr 120 \<and> adjust (5 / 2) 0 0 = Inr 2"
  using adjust_at_threshold [of 120 30] adjust_at_threshold [of "5 / 2" 0]
  by (simp add: py_round_def)

subsection \<open>Messages\<close>




text \<open>
  C7. For every successful call the messages after the leading pH message are the
  nutrient warnings, at most three, in the order N, P, K: the N warning is there if
  and only if \<open>n < lowN\<close>, the P warning if and only if \<open>p < lowP\<close>, the K warning if
  and only if \<open>k < lowK\<close>.
\<close>

theorem nutrient_warnings_order:
  assumes "recommend crop soil_ph n p k rainfall_mm rules = Inr res"
  shows "\<exists>m ws. res_messages res = m # ws \<and> is_ph_msg m
           \<and> ws = (if n < low_n (thresholds rules) then [n_warning] else [])
                 @ (if p < low_p (thresholds rules) then [p_warning] else [])
                 @ (if k < low_k (thresholds rules) then [k_warning] else [])
           \<and> length ws \<le> 3
           \<and> (n_warning \<in> set ws \<longleftrightarrow> n < low_n (thresholds rules))
           \<and> (p_warning \<in> set ws \<longleftrightarrow> p < low_p (thresholds rules))
           \<and> (k_warning \<in> set ws \<longleftrightarrow> k < low_k (thresholds rules))"
proof -
  obtain c where c: "fmlookup (crops rules) (lower (strip crop)) = Some c"
    using recommend_InrD [OF assms] by blast
  let ?t = "thresholds rules"
  let ?key = "lower (strip crop)"
  let ?m = "if soil_ph < fst (ideal_ph c) then ph_low_msg soil_ph ?key
            else if snd (ideal_ph c) < soil_ph then ph_high_msg soil_ph ?key
            else ph_ok_msg soil_ph ?key"
  let ?ws = "(if n < low_n ?t then [n_warning] else [])
           @ (if p < low_p ?t then [p_warning] else [])
           @ (if k < low_k ?t then [k_warning] else [])"
  have msgs: "res_messages res = ?m # ?ws"
    using assms by (simp add: recommend_found [OF c]) auto
  have ph: "is_ph_msg ?m" by (simp add: ph_msgs_are_ph)
  have len: "length ?ws \<le> 3" by simp
  have nw: "n_warning \<in> set ?ws \<longleftrightarrow> n < low_n ?t"
    using warnings_distinct by auto
  have pw: "p_warning \<in> set ?ws \<longleftrightarrow> p < low_p ?t"
    using warnings_distinct by auto
  have kw: "k_warning \<in> set ?ws \<longleftrightarrow> k < low_k ?t"
    using warnings_distinct by auto
  show ?thesis
    using msgs ph len nw pw kw by blast
qed

theorem nutrient_warnings_order_witness:
  "\<exists>res. recommend ''maize'' 5 20 50 45 500 demo_rules = Inr res
      \<and> res_messages res = [ph_low_msg 5 ''maize'', n_warning]
      \<and> (\<exists>m ws. res_messages res = m # ws \<and> is_ph_msg m \<and> ws = [n_warning] \<and> length ws \<le> 3
            \<and> n_warning \<in> set ws \<and> p_warning \<notin> set ws \<and> k_warning \<notin> set ws)"
proof -
  have t: "low_n (thresholds demo_rules) = 30" "low_p (thresholds demo_rules) = 15"
    "low_k (thresholds demo_rules) = 40"
    by (simp_all add: demo_rules_def)
  show ?thesis
    using nutrient_warnings_order [OF demo_maize_run] warnings_distinct
    by (simp add: demo_maize_run t)
qed

subsection \<open>Tips\<close>

text \<open>
  C8, as stated: the high-rainfall tip is not chosen whenever the rainfall is above the
  high threshold. The low test is made first, so with thresholds low 1200 and high 400
  the rainfall 800 is above the high threshold and the tip is the low-rainfall one.
\<close>

theorem rainfall_tip_counterexample:
  "map_sum id res_tips
     (recommend ''sesame'' 6 50 50 50 800
        (demo_rules\<lparr>thresholds := \<lparr>low_rainfall_mm = 1200, high_rainfall_mm = 400,
                                      low_n = 30, low_p = 15, low_k = 40\<rparr>\<rparr>))
     = Inr [''Rainfall is low: plan irrigation, mulching, or drought-tolerant practices.'']
   \<and> (400 :: int) < 800"
proof -
  have f: "fmlookup (crops (demo_rules\<lparr>thresholds := \<lparr>low_rainfall_mm = 1200, high_rainfall_mm = 400,
                                      low_n = 30, low_p = 15, low_k = 40\<rparr>\<rparr>)) (lower (strip ''sesame''))
            = Some \<lparr>ideal_ph = (11 / 2, 8), base_npk = (50, 30, 30), notes_opt = Some []\<rparr>"
    by code_simp
  show ?thesis
    by (simp add: recommend_found [OF f] rain_low_tip_def)
qed

text \<open>
  C8, amended: for every successful call the tips list is the notes of the crop rule, in
  their order (none when the rule has no notes), followed by exactly one rainfall tip.
  That tip is the low-rainfall one if and only if the rainfall is below the low
  threshold, the high-rainfall one if and only if the rainfall is above the high
  threshold and not below the low one (the low test comes first), and the moderate one
  if and only if the rainfall lies between the two thresholds, both included.
\<close>

theorem tips_notes_then_rainfall:
  assumes "recommend crop soil_ph n p k rainfall_mm rules = Inr res"
    and "fmlookup (crops rules) (lower (strip crop)) = Some c"
  shows "\<exists>tip. res_tips res = (case notes_opt c of None \<Rightarrow> [] | Some ns \<Rightarrow> ns) @ [tip]
           \<and> (tip = rain_low_tip \<or> tip = rain_high_tip \<or> tip = rain_moderate_tip)
           \<and> (tip = rain_low_tip \<longleftrightarrow> rainfall_mm < low_rainfall_mm (thresholds rules))
           \<and> (tip = rain_high_tip \<longleftrightarrow>
                  high_rainfall_mm (thresholds rules) < rainfall_mm
                  \<and> \<not> rainfall_mm < low_rainfall_mm (thresholds rules))
           \<and> (tip = rain_moderate_tip \<longleftrightarrow>
                  low_rainfall_mm (thresholds rules) \<le> rainfall_mm
                  \<and> rainfall_mm \<le> high_rainfall_mm (thresholds rules))"
proof -
  let ?t = "thresholds rules"
  let ?tip = "if rainfall_mm < low_rainfall_mm ?t then rain_low_tip
              else if high_rainfall_mm ?t < rainfall_mm then rain_high_tip
              else rain_moderate_tip"
  have tips: "res_tips res = (case notes_opt c of None \<Rightarrow> [] | Some ns \<Rightarrow> ns) @ [?tip]"
    using assms(1) by (simp add: recommend_found [OF assms(2)]) auto
  have one: "?tip = rain_low_tip \<or> ?tip = rain_high_tip \<or> ?tip = rain_moderate_tip" by simp
  have low: "?tip = rain_low_tip \<longleftrightarrow> rainfall_mm < low_rainfall_mm ?t"
    using tips_distinct by auto
  have high: "?tip = rain_high_tip \<longleftrightarrow>
      high_rainfall_mm ?t < rainfall_mm \<and> \<not> rainfall_mm < low_rainfall_mm ?t"
    using tips_distinct by auto
  have moderate: "?tip = rain_moderate_tip \<longleftrightarrow>
      low_rainfall_mm ?t \<le> rainfall_mm \<and> rainfall_mm \<le> high_rainfall_mm ?t"
    using tips_distinct by auto
  show ?thesis
    using tips one low high moderate by blast
qed

theorem tips_notes_then_rainfall_witness:
  "\<exists>res. recommend ''maize'' 5 20 50 45 500 demo_rules = Inr res
      \<and> fmlookup (crops demo_rules) (lower (strip ''maize'')) = Some maize_rule
      \<and> res_tips res = [''Plant at the onset of rains.'', ''Rotate with legumes.'',
                         ''Rainfall seems moderate: keep basic moisture monitoring.'']
      \<and> (\<exists>tip. res_tips res = [''Plant at the onset of rains.'', ''Rotate with legumes.''] @ [tip]
            \<and> (tip = rain_moderate_tip \<longleftrightarrow> (400::int) \<le> 500 \<and> (500::int) \<le> 1200))"
proof -
  have t: "low_rainfall_mm (thresholds demo_rules) = 400"
    "high_rainfall_mm (thresholds demo_rules) = 1200"
    by (simp_all add: demo_rules_def)
  have nt: "notes_opt maize_rule = Some [''Plant at the onset of rains.'', ''Rotate with legumes.'']"
    by (simp add: maize_rule_def)
  show ?thesis
    using tips_notes_then_rainfall [OF demo_maize_run demo_maize] demo_maize
    by (simp add: demo_maize_run t nt rain_moderate_tip_def)
qed

subsection \<open>Determinism\<close>

text \<open>
  C9. A call to \<^verbatim>\<open>recommend\<close> reads nothing but its arguments and the rule table: in
  any two stores in which the rule table has the same contents, two calls with the same
  arguments return the same value, field by field (crop, inputs, NPK estimate, explain
  text, messages, tips), or raise the same error. A call allocates its own lists and
  leaves the rule table as it was, so that a call made after another finds the table
  unmodified.
\<close>

theorem recommend_deterministic:
  assumes "notes_allocated h rules" and "notes_allocated h' rules"
    and "load_rules h rules = load_rules h' rules"
  shows "returned (recommend_st crop soil_ph n p k rainfall_mm rules h)
           = returned (recommend_st crop soil_ph n p k rainfall_mm rules h')
       \<and> (\<forall>out h1. recommend_st crop soil_ph n p k rainfall_mm rules h = (out, h1) \<longrightarrow>
             notes_allocated h1 rules \<and> load_rules h1 rules = load_rules h rules)"
proof (intro conjI allI impI)
  show "returned (recommend_st crop soil_ph n p k rainfall_mm rules h)
           = returned (recommend_st crop soil_ph n p k rainfall_mm rules h')"
    using assms by (simp add: recommend_st_refines)
next
  fix out h1
  assume run: "recommend_st crop soil_ph n p k rainfall_mm rules h = (out, h1)"
  obtain fresh where "h1 = h @ fresh"
    using recommend_st_extends [OF assms(1) run] by blast
  then show "notes_allocated h1 rules" "load_rules h1 rules = load_rules h rules"
    using table_kept [OF assms(1)] by simp_all
qed

theorem recommend_deterministic_witness:
  "notes_allocated demo_store demo_rules_obj
   \<and> (\<exists>out h1. recommend_st ''maize'' 5 20 50 45 500 demo_rules_obj demo_store = (out, h1)
         \<and> notes_allocated h1 demo_rules_obj
         \<and> load_rules h1 demo_rules_obj = load_rules demo_store demo_rules_obj
         \<and> returned (out, h1) = returned (recommend_st ''maize'' 5 20 50 45 500 demo_rules_obj h1)
         \<and> returned (out, h1) =
             Inr \<lparr>res_crop = ''maize'',
                  res_inputs = \<lparr>in_soil_ph = 5, in_soil_n = 20, in_soil_p = 50, in_soil_k = 45,
                                 in_rainfall_mm = 500\<rparr>,
                  res_recommendation = \<lparr>npk_estimate = [132, 60, 40], explain = explain_text\<rparr>,
                  res_messages = [ph_low_msg 5 ''maize'', n_warning],
                  res_tips = [''Plant at the onset of rains.'', ''Rotate with legumes.'',
                              rain_moderate_tip]\<rparr>)"
proof -
  have a: "notes_allocated demo_store demo_rules_obj" by code_simp
  have l: "load_rules demo_store demo_rules_obj = demo_rules" by code_simp
  obtain out h1 where
    run: "recommend_st ''maize'' 5 20 50 45 500 demo_rules_obj demo_store = (out, h1)"
    by (cases "recommend_st ''maize'' 5 20 50 45 500 demo_rules_obj demo_store") blast
  have kept: "notes_allocated h1 demo_rules_obj"
    "load_rules h1 demo_rules_obj = load_rules demo_store demo_rules_obj"
    using recommend_deterministic [OF a a refl, of "''maize''" 5 20 50 45 500] run by simp_all
  have same: "returned (out, h1) = returned (recommend_st ''maize'' 5 20 50 45 500 demo_rules_obj h1)"
    using recommend_deterministic [OF a kept(1) kept(2) [symmetric], of "''maize''" 5 20 50 45 500] run
    by simp
  have val: "returned (out, h1) = recommend ''maize'' 5 20 50 45 500 demo_rules"
    using recommend_st_refines [OF a, of "''maize''" 5 20 50 45 500] run l by simp
  show ?thesis
    using a run kept same val by (simp add: demo_maize_run)
qed

subsection \<open>A rule without notes\<close>



end
